theory Spec2Isabelle
  imports Complex_Main
begin

section \<open>Data model (types.ts)\<close>

text \<open>
  The interfaces \<open>Profile\<close>, \<open>TemplateField\<close>, \<open>Mapping\<close> and \<open>Template\<close>.
  JavaScript numbers that carry geometry are modelled as \<^typ>\<open>real\<close>: finite values,
  no rounding, no NaN. Page indices and array indices are \<^typ>\<open>int\<close>. Strings are
  \<^typ>\<open>string\<close>; an optional property is an \<^typ>\<open>'a option\<close>, \<open>None\<close> standing for
  \<open>undefined\<close>. A \<open>Record<string, string>\<close> is a map: \<open>profileFields p k\<close> is what
  \<open>profile.fields[k]\<close> evaluates to, a string or \<open>undefined\<close>. A key that the profile
  does not hold and that names a member of \<open>Object.prototype\<close> (\<open>constructor\<close>,
  \<open>toString\<close> and the like), for which the lookup yields that member, is outside the
  model; the editor binds the five keys of its menu, none of them such a name.

  A record's selectors are constants, so some properties carry their owner's name:
  \<open>id\<close>, \<open>name\<close>, \<open>type\<close>, \<open>x\<close> and \<open>y\<close> of a field are \<open>fieldId\<close>,
  \<open>fieldName\<close>, \<open>fieldType\<close>, \<open>fieldX\<close> and \<open>fieldY\<close>; \<open>id\<close>, \<open>name\<close> and
  \<open>fields\<close> of a template are \<open>templateId\<close>, \<open>templateName\<close> and
  \<open>templateFields\<close>; those of a profile are \<open>profileId\<close>, \<open>profileName\<close> and
  \<open>profileFields\<close>.
\<close>

type_synonym bytes = "nat list"

record profile =
  profileId :: "nat option"
  profileName :: string
  profileFields :: "string \<rightharpoonup> string"

datatype FieldType = TEXT | CHECKBOX

record templateField =
  fieldId :: string
  fieldName :: string
  fieldType :: FieldType
  isManual :: bool
  pageIndex :: int
  fieldX :: "real option"
  fieldY :: "real option"
  width :: "real option"
  height :: "real option"
  fontSize :: "real option"

record mapping =
  templateFieldId :: string
  profileKey :: string
  transformation :: "string option"

record template =
  templateId :: "nat option"
  templateName :: string
  pdfData :: bytes
  templateFields :: "templateField list"
  mappings :: "mapping list"
  createdAt :: nat

section \<open>JavaScript built-ins used by the code\<close>

text \<open>\<open>v || ''\<close> on an optional string: \<open>undefined\<close> and the empty string are falsy.\<close>

definition orEmpty :: "string option \<Rightarrow> string" where
  "orEmpty v = (case v of None \<Rightarrow> [] | Some s \<Rightarrow> if s = [] then [] else s)"

text \<open>\<open>v || d\<close> on an optional number: \<open>undefined\<close> and \<open>0\<close> are falsy.\<close>

definition orNumber :: "real option \<Rightarrow> real \<Rightarrow> real" where
  "orNumber v d = (case v of None \<Rightarrow> d | Some r \<Rightarrow> if r = 0 then d else r)"

text \<open>
  \<open>String.prototype.toUpperCase\<close> and \<open>toLowerCase\<close> belong to the platform, not to
  the repository: the generator is given them, and what is proved of it holds for every
  pair of functions, the platform's among them.
\<close>

record stringMethods =
  toUpperCase :: "string \<Rightarrow> string"
  toLowerCase :: "string \<Rightarrow> string"

text \<open>The decimal text of a non-negative integer, as a template literal prints it.\<close>

function decimal :: "nat \<Rightarrow> string" where
  "decimal n =
     (if n < 10 then [char_of (48 + n)] else decimal (n div 10) @ [char_of (48 + n mod 10)])"
  by pat_completeness auto
termination
  by (relation "measure (\<lambda>n. n)") auto

declare decimal.simps [simp del]



section \<open>The pdf-lib collaborator\<close>

text \<open>
  A loaded document is what the generator reads from it: the height of every page
  (\<open>page.getSize().height\<close>) and, for the form, whether
  \<open>form.getField(name).setText(value)\<close> returns normally (it raises when the name is
  unknown or the field is not a text field). What the generator does to the document is
  the list of calls that changed it, oldest first. \<open>drawText\<close> is always called with
  the Helvetica font and the colour black, which the model leaves out.
\<close>

record pdfDocument =
  pageHeights :: "real list"
  acceptsText :: "string \<Rightarrow> string \<Rightarrow> bool"

record drawTextOptions =
  optX :: real
  optY :: real
  optSize :: real
  optMaxWidth :: "real option"

datatype libCall =
    SetText string string
  | DrawText nat string drawTextOptions

text \<open>The string a call hands to the library, and whether a call sets a given field.\<close>

fun callValue :: "libCall \<Rightarrow> string" where
  "callValue (SetText n v) = v"
| "callValue (DrawText i v opts) = v"

fun isSetTextOf :: "string \<Rightarrow> libCall \<Rightarrow> bool" where
  "isSetTextOf n (SetText n' v) = (n' = n)"
| "isSetTextOf n (DrawText i v opts) = False"

text \<open>
  The library itself: \<open>PDFDocument.load\<close>, which raises on bytes that are no document;
  the bytes \<open>save\<close> returns when it returns; and the encoder of the Helvetica font.
  Helvetica is written in the WinAnsi encoding, which has every printable ASCII
  character; for any other text the library's \<open>encodes\<close> says whether the font has all
  of its characters.
\<close>

record pdfLib =
  PDFDocument_load :: "bytes \<Rightarrow> pdfDocument option"
  PDFDocument_save :: "pdfDocument \<Rightarrow> libCall list \<Rightarrow> bytes"
  encodes :: "string \<Rightarrow> bool"

definition printableAscii :: "string \<Rightarrow> bool" where
  "printableAscii s = list_all (\<lambda>c. 32 \<le> (of_char c :: nat) \<and> (of_char c :: nat) \<le> 126) s"

definition canEncode :: "pdfLib \<Rightarrow> string \<Rightarrow> bool" where
  "canEncode lib s = (printableAscii s \<or> encodes lib s)"

text \<open>
  \<open>page.drawText\<close> encodes its text on the spot and raises when the font cannot.
  \<open>setText\<close> only stores the text; \<open>save\<close> builds the appearance of every text field
  that was set, from the text the field holds then (the last one set), and raises when
  the font cannot encode it.
\<close>

fun saveRaises :: "pdfLib \<Rightarrow> libCall list \<Rightarrow> bool" where
  "saveRaises lib [] = False"
| "saveRaises lib (SetText n v # cs) =
     (if list_ex (isSetTextOf n) cs then saveRaises lib cs
      else if canEncode lib v then saveRaises lib cs
      else True)"
| "saveRaises lib (DrawText i v opts # cs) = saveRaises lib cs"

text \<open>
  The ways the promise of \<open>generateFilledPDF\<close> is rejected: by \<open>PDFDocument.load\<close>,
  by \<open>page.drawText\<close> and by \<open>pdfDoc.save\<close>, none of them inside a \<open>try\<close> block.
\<close>

datatype genError = LoadFailed | DrawTextFailed | SaveFailed

record filling =
  calls :: "libCall list"
  warnings :: "string list"

text \<open>
  What a generation that returns leaves behind: the bytes, the calls that made the
  document they were saved from, and the warnings printed on the console.
\<close>

record generated =
  outputBytes :: bytes
  libCalls :: "libCall list"
  consoleWarnings :: "string list"

section \<open>services/pdfService.ts: generateFilledPDF (lines 37 to 92)\<close>

text \<open>\<open>pages[i]\<close>: \<open>undefined\<close> outside the array.\<close>

definition getPage :: "pdfDocument \<Rightarrow> int \<Rightarrow> real option" where
  "getPage doc i =
     (if 0 \<le> i \<and> nat i < length (pageHeights doc) then Some (pageHeights doc ! nat i)
      else None)"

text \<open>
  The body of the loop over \<open>template.mappings\<close> (lines 45 to 88). The \<open>try\<close> block
  of a field that is not manual either sets the text or, when the library raises, prints
  a warning that names the field. The \<open>drawText\<close> of a manual field is guarded by
  nothing: when it raises, the loop and the generation end there.
\<close>

definition fillMapping ::
  "stringMethods \<Rightarrow> pdfLib \<Rightarrow> template \<Rightarrow> profile \<Rightarrow> pdfDocument \<Rightarrow> filling \<Rightarrow> mapping
     \<Rightarrow> genError + filling" where
  "fillMapping js lib t p doc st m =
     (case find (\<lambda>f. fieldId f = templateFieldId m) (templateFields t) of
        None \<Rightarrow> Inr st
      | Some fieldDef \<Rightarrow>
          (let value0 = orEmpty (profileFields p (profileKey m));
               value1 = (if transformation m = Some ''uppercase''
                         then toUpperCase js value0 else value0);
               value2 = (if transformation m = Some ''lowercase''
                         then toLowerCase js value1 else value1)
           in if \<not> isManual fieldDef then
                (if acceptsText doc (fieldId fieldDef) value2
                 then Inr (st\<lparr>calls := calls st @ [SetText (fieldId fieldDef) value2]\<rparr>)
                 else Inr (st\<lparr>warnings := warnings st @ [fieldId fieldDef]\<rparr>))
              else
                (case getPage doc (pageIndex fieldDef) of
                   None \<Rightarrow> Inr st
                 | Some pageHeight \<Rightarrow>
                     (case fieldX fieldDef of
                        None \<Rightarrow> Inr st
                      | Some xv \<Rightarrow>
                          (case fieldY fieldDef of
                             None \<Rightarrow> Inr st
                           | Some yv \<Rightarrow>
                               (let size = orNumber (fontSize fieldDef) 12;
                                    pdfY = pageHeight - orNumber (fieldY fieldDef) 0
                                             - orNumber (height fieldDef) 20 + 4
                                in if canEncode lib value2
                                   then Inr (st\<lparr>calls := calls st @
                                     [DrawText (nat (pageIndex fieldDef)) value2
                                        \<lparr>optX = xv, optY = pdfY, optSize = size,
                                         optMaxWidth = width fieldDef\<rparr>]\<rparr>)
                                   else Inl DrawTextFailed))))))"

text \<open>The loop: it ends at the first mapping whose \<open>drawText\<close> raises.\<close>

fun fillMappings ::
  "stringMethods \<Rightarrow> pdfLib \<Rightarrow> template \<Rightarrow> profile \<Rightarrow> pdfDocument \<Rightarrow> filling \<Rightarrow> mapping list
     \<Rightarrow> genError + filling" where
  "fillMappings js lib t p doc st [] = Inr st"
| "fillMappings js lib t p doc st (m # ms) =
     (case fillMapping js lib t p doc st m of
        Inl e \<Rightarrow> Inl e
      | Inr st' \<Rightarrow> fillMappings js lib t p doc st' ms)"

definition generateFilledPDF ::
  "stringMethods \<Rightarrow> pdfLib \<Rightarrow> template \<Rightarrow> profile \<Rightarrow> genError + generated" where
  "generateFilledPDF js lib t p =
     (case PDFDocument_load lib (pdfData t) of
        None \<Rightarrow> Inl LoadFailed
      | Some doc \<Rightarrow>
          (case fillMappings js lib t p doc \<lparr>calls = [], warnings = []\<rparr> (mappings t) of
             Inl e \<Rightarrow> Inl e
           | Inr st \<Rightarrow>
               if saveRaises lib (calls st) then Inl SaveFailed
               else Inr \<lparr>outputBytes = PDFDocument_save lib doc (calls st),
                         libCalls = calls st,
                         consoleWarnings = warnings st\<rparr>))"

text \<open>
  What one pass of the loop body does, starting from nothing: the calls it makes on the
  document, the warnings it prints, and whether it ends the generation.
\<close>

definition writes ::
  "stringMethods \<Rightarrow> pdfLib \<Rightarrow> template \<Rightarrow> profile \<Rightarrow> pdfDocument \<Rightarrow> mapping \<Rightarrow> libCall list" where
  "writes js lib t p doc m =
     (case fillMapping js lib t p doc \<lparr>calls = [], warnings = []\<rparr> m of
        Inl e \<Rightarrow> []
      | Inr st \<Rightarrow> calls st)"

definition warns ::
  "stringMethods \<Rightarrow> pdfLib \<Rightarrow> template \<Rightarrow> profile \<Rightarrow> pdfDocument \<Rightarrow> mapping \<Rightarrow> string list" where
  "warns js lib t p doc m =
     (case fillMapping js lib t p doc \<lparr>calls = [], warnings = []\<rparr> m of
        Inl e \<Rightarrow> []
      | Inr st \<Rightarrow> warnings st)"

definition aborts ::
  "stringMethods \<Rightarrow> pdfLib \<Rightarrow> template \<Rightarrow> profile \<Rightarrow> pdfDocument \<Rightarrow> mapping \<Rightarrow> bool" where
  "aborts js lib t p doc m =
     (case fillMapping js lib t p doc \<lparr>calls = [], warnings = []\<rparr> m of
        Inl e \<Rightarrow> True
      | Inr st \<Rightarrow> False)"

section \<open>The resolved value, as the specification words it\<close>

text \<open>
  The value of a mapping is \<open>profile.fields[mapping.profileKey] ?? ""\<close>, folded to
  upper case under \<open>uppercase\<close>, to lower case under \<open>lowercase\<close>, and passed
  through unchanged under anything else, an absent tag included.
\<close>

definition specValue :: "stringMethods \<Rightarrow> profile \<Rightarrow> mapping \<Rightarrow> string" where
  "specValue js p m =
     (let v = (case profileFields p (profileKey m) of None \<Rightarrow> [] | Some s \<Rightarrow> s)
      in if transformation m = Some ''uppercase'' then toUpperCase js v
         else if transformation m = Some ''lowercase'' then toLowerCase js v
         else v)"

section \<open>components/TemplateEditor.tsx: the editor's state and operations\<close>

text \<open>
  The component's state variables that the operations read or write, and the calls it
  makes to \<open>db.templates.update\<close>, oldest first: each call is the key it was given
  (\<open>template.id\<close>) and the changes. \<open>currentPage\<close> counts from 1. An operation
  takes the state of the render it was bound in and returns the next state.

  \<open>addManualField\<close> (lines 88 to 103), \<open>updateField\<close>, \<open>persistField\<close>,
  \<open>deleteField\<close> (lines 115 to 124) and \<open>saveMapping\<close> (lines 126 to 141) are those
  of components/TemplateEditor.tsx. The desktop variant of the component has the same
  five, without the \<open>showProperties\<close> flag, and the resize handle besides.
\<close>

datatype changes =
    WholeTemplate template
  | FieldsOnly "templateField list"

record editor =
  template :: "template option"
  currentPage :: int
  scale :: real
  selectedFieldId :: "string option"
  showProperties :: bool
  dbUpdates :: "(nat option \<times> changes) list"

text \<open>\<open>Date.now()\<close> is an input of \<open>addManualField\<close>: the clock's milliseconds.\<close>

definition addManualField :: "nat \<Rightarrow> editor \<Rightarrow> editor" where
  "addManualField now s =
     (case template s of
        None \<Rightarrow> s
      | Some t \<Rightarrow>
          (let newField = \<lparr>fieldId = ''custom_'' @ decimal now, fieldName = ''New Field'',
                 fieldType = TEXT, isManual = True, pageIndex = currentPage s - 1,
                 fieldX = Some 50, fieldY = Some 50, width = Some 150, height = Some 30,
                 fontSize = Some 12\<rparr>;
               newTemplate = t\<lparr>templateFields := templateFields t @ [newField]\<rparr>
           in s\<lparr>template := Some newTemplate,
                dbUpdates := dbUpdates s @ [(templateId t, WholeTemplate newTemplate)],
                selectedFieldId := Some (fieldId newField),
                showProperties := True\<rparr>))"

text \<open>
  A \<open>Partial<TemplateField>\<close> as the editor builds it: the properties that are present
  replace the field's own in \<open>{ ...f, ...updates }\<close>.
\<close>

record fieldUpdates =
  newName :: "string option"
  newX :: "real option"
  newY :: "real option"
  newWidth :: "real option"
  newHeight :: "real option"
  newFontSize :: "real option"

definition noUpdates :: fieldUpdates where
  "noUpdates = \<lparr>newName = None, newX = None, newY = None, newWidth = None,
     newHeight = None, newFontSize = None\<rparr>"

definition spread :: "templateField \<Rightarrow> fieldUpdates \<Rightarrow> templateField" where
  "spread f u =
     f\<lparr>fieldName := (case newName u of None \<Rightarrow> fieldName f | Some v \<Rightarrow> v),
       fieldX := (case newX u of None \<Rightarrow> fieldX f | Some v \<Rightarrow> Some v),
       fieldY := (case newY u of None \<Rightarrow> fieldY f | Some v \<Rightarrow> Some v),
       width := (case newWidth u of None \<Rightarrow> width f | Some v \<Rightarrow> Some v),
       height := (case newHeight u of None \<Rightarrow> height f | Some v \<Rightarrow> Some v),
       fontSize := (case newFontSize u of None \<Rightarrow> fontSize f | Some v \<Rightarrow> Some v)\<rparr>"

definition updateField :: "string \<Rightarrow> fieldUpdates \<Rightarrow> editor \<Rightarrow> editor" where
  "updateField fid u s =
     (case template s of
        None \<Rightarrow> s
      | Some t \<Rightarrow>
          (let newFields = map (\<lambda>f. if fieldId f = fid then spread f u else f) (templateFields t)
           in s\<lparr>template := Some (t\<lparr>templateFields := newFields\<rparr>)\<rparr>))"

definition persistField :: "editor \<Rightarrow> editor" where
  "persistField s =
     (case template s of
        None \<Rightarrow> s
      | Some t \<Rightarrow> s\<lparr>dbUpdates := dbUpdates s @ [(templateId t, FieldsOnly (templateFields t))]\<rparr>)"

definition deleteField :: "string \<Rightarrow> editor \<Rightarrow> editor" where
  "deleteField fid s =
     (case template s of
        None \<Rightarrow> s
      | Some t \<Rightarrow>
          (let newFields = filter (\<lambda>f. fieldId f \<noteq> fid) (templateFields t);
               newMappings = filter (\<lambda>m. templateFieldId m \<noteq> fid) (mappings t);
               updated = t\<lparr>templateFields := newFields, mappings := newMappings\<rparr>
           in s\<lparr>template := Some updated,
                dbUpdates := dbUpdates s @ [(templateId t, WholeTemplate updated)],
                selectedFieldId := None,
                showProperties := False\<rparr>))"



text \<open>
  The resize handle's \<open>onResize\<close>, in the variant of the editor that has one. \<open>field\<close>,
  \<open>startX\<close> and \<open>startY\<close> were captured at mouse-down; \<open>clientX\<close> and \<open>clientY\<close>
  are the pointer's position in the move event.
\<close>

definition onResize :: "templateField \<Rightarrow> real \<Rightarrow> real \<Rightarrow> real \<Rightarrow> real \<Rightarrow> editor \<Rightarrow> editor" where
  "onResize field startX startY clientX clientY s =
     (let startWidth = orNumber (width field) 100;
          startHeight = orNumber (height field) 20;
          dx = (clientX - startX) / scale s;
          dy = (clientY - startY) / scale s
      in updateField (fieldId field)
           (noUpdates\<lparr>newWidth := Some (max 20 (startWidth + dx)),
                      newHeight := Some (max 10 (startHeight + dy))\<rparr>) s)"

section \<open>Example data\<close>

definition janeField :: templateField where
  "janeField = \<lparr>fieldId = ''custom_1'', fieldName = ''New Field'', fieldType = TEXT,
     isManual = True, pageIndex = 0, fieldX = Some 50, fieldY = Some 50,
     width = Some 150, height = Some 30, fontSize = Some 12\<rparr>"

definition janeMapping :: mapping where
  "janeMapping = \<lparr>templateFieldId = ''custom_1'', profileKey = ''Full Name'',
     transformation = None\<rparr>"

definition janeTemplate :: template where
  "janeTemplate = \<lparr>templateId = Some 1, templateName = ''form'', pdfData = [37, 80, 68, 70],
     templateFields = [janeField], mappings = [janeMapping], createdAt = 0\<rparr>"

definition janeProfile :: profile where
  "janeProfile = \<lparr>profileId = Some 1, profileName = ''Me'',
     profileFields = [''Full Name'' \<mapsto> ''Jane Doe'']\<rparr>"

text \<open>A one-page A4 document with one text field, \<open>signature_date\<close>.\<close>

definition a4Document :: pdfDocument where
  "a4Document = \<lparr>pageHeights = [842], acceptsText = (\<lambda>n v. n = ''signature_date'')\<rparr>"

text \<open>
  A library that parses every byte string but the empty one, whose font has the printable
  ASCII characters and no other, and whose \<open>save\<close> writes one byte for every call, the
  length of its text.
\<close>

definition stubLib :: pdfLib where
  "stubLib = \<lparr>PDFDocument_load = (\<lambda>b. if b = [] then None else Some a4Document),
     PDFDocument_save = (\<lambda>d cs. map (\<lambda>c. length (callValue c)) cs),
     encodes = (\<lambda>s. False)\<rparr>"

text \<open>String methods that fold the ASCII letters and leave every other character.\<close>

definition asciiUpperChar :: "char \<Rightarrow> char" where
  "asciiUpperChar c =
     (let n = (of_char c :: nat) in if 97 \<le> n \<and> n \<le> 122 then char_of (n - 32) else c)"

definition asciiLowerChar :: "char \<Rightarrow> char" where
  "asciiLowerChar c =
     (let n = (of_char c :: nat) in if 65 \<le> n \<and> n \<le> 90 then char_of (n + 32) else c)"

definition asciiStrings :: stringMethods where
  "asciiStrings = \<lparr>toUpperCase = map asciiUpperChar, toLowerCase = map asciiLowerChar\<rparr>"

text \<open>
  A native field and a manual field bound to the same key, the first in upper case, the
  second in lower case.
\<close>

definition sigField :: templateField where
  "sigField = \<lparr>fieldId = ''signature_date'', fieldName = ''signature_date'',
     fieldType = TEXT, isManual = False, pageIndex = 0, fieldX = None, fieldY = None,
     width = None, height = None, fontSize = None\<rparr>"




text \<open>A manual field with a position and no size.\<close>

definition noSizeField :: templateField where
  "noSizeField = \<lparr>fieldId = ''custom_2'', fieldName = ''New Field'', fieldType = TEXT,
     isManual = True, pageIndex = 0, fieldX = Some 50, fieldY = Some 50,
     width = None, height = None, fontSize = None\<rparr>"

definition noSizeTemplate :: template where
  "noSizeTemplate = \<lparr>templateId = Some 3, templateName = ''form'', pdfData = [37, 80, 68, 70],
     templateFields = [noSizeField],
     mappings = [\<lparr>templateFieldId = ''custom_2'', profileKey = ''Full Name'',
                  transformation = None\<rparr>],
     createdAt = 0\<rparr>"

text \<open>A manual field on page 3 of a one-page document, before the field of the first scenario.\<close>

definition offPageField :: templateField where
  "offPageField = \<lparr>fieldId = ''custom_3'', fieldName = ''New Field'', fieldType = TEXT,
     isManual = True, pageIndex = 3, fieldX = Some 50, fieldY = Some 50,
     width = Some 150, height = Some 30, fontSize = Some 12\<rparr>"

definition offPageMapping :: mapping where
  "offPageMapping = \<lparr>templateFieldId = ''custom_3'', profileKey = ''Full Name'',
     transformation = None\<rparr>"

definition offPageTemplate :: template where
  "offPageTemplate = \<lparr>templateId = Some 4, templateName = ''form'', pdfData = [37, 80, 68, 70],
     templateFields = [offPageField, janeField],
     mappings = [offPageMapping, janeMapping], createdAt = 0\<rparr>"

text \<open>A mapping left behind by a deleted field, before a valid one.\<close>

definition ghostMapping :: mapping where
  "ghostMapping = \<lparr>templateFieldId = ''custom_0'', profileKey = ''Address'',
     transformation = None\<rparr>"

definition staleTemplate :: template where
  "staleTemplate = \<lparr>templateId = Some 5, templateName = ''form'', pdfData = [37, 80, 68, 70],
     templateFields = [janeField], mappings = [ghostMapping, janeMapping], createdAt = 0\<rparr>"

text \<open>
  A profile whose name starts with a letter that WinAnsi lacks, L with stroke: the two
  bytes C5 81 of its UTF-8 form, then \<open>ukasz\<close>.
\<close>

definition lukaszProfile :: profile where
  "lukaszProfile = \<lparr>profileId = Some 2, profileName = ''Him'',
     profileFields = [''Full Name'' \<mapsto> CHR 0xC5 # CHR 0x81 # ''ukasz'']\<rparr>"

text \<open>The native field of the first example bound to that name.\<close>

definition lukaszNativeTemplate :: template where
  "lukaszNativeTemplate = \<lparr>templateId = Some 6, templateName = ''contract'',
     pdfData = [37, 80, 68, 70], templateFields = [sigField],
     mappings = [\<lparr>templateFieldId = ''signature_date'', profileKey = ''Full Name'',
                  transformation = None\<rparr>],
     createdAt = 0\<rparr>"

text \<open>Editor states: a template with no field yet, the first scenario's, and one mapping with a transformation.\<close>

definition freshEditor :: editor where
  "freshEditor = \<lparr>template = Some (janeTemplate\<lparr>templateFields := [], mappings := []\<rparr>),
     currentPage = 1, scale = 2, selectedFieldId = None, showProperties = False,
     dbUpdates = []\<rparr>"

definition janeEditor :: editor where
  "janeEditor = \<lparr>template = Some janeTemplate, currentPage = 1, scale = 2,
     selectedFieldId = Some ''custom_1'', showProperties = True, dbUpdates = []\<rparr>"


section \<open>Generation, mapping by mapping\<close>

text \<open>
  The value the loop body computes is the resolved value of the specification, and what
  the body does with it is decided by the field alone.
\<close>

lemma orEmpty_eq: "orEmpty v = (case v of None \<Rightarrow> [] | Some s \<Rightarrow> s)"
  by (simp add: orEmpty_def split: option.splits)

lemma fillMapping_cases:
  "fillMapping js lib t p doc st m =
     (case find (\<lambda>f. fieldId f = templateFieldId m) (templateFields t) of
        None \<Rightarrow> Inr st
      | Some f \<Rightarrow>
          if \<not> isManual f then
            (if acceptsText doc (fieldId f) (specValue js p m)
             then Inr (st\<lparr>calls := calls st @ [SetText (fieldId f) (specValue js p m)]\<rparr>)
             else Inr (st\<lparr>warnings := warnings st @ [fieldId f]\<rparr>))
          else
            (case getPage doc (pageIndex f) of
               None \<Rightarrow> Inr st
             | Some pageHeight \<Rightarrow>
                 (case fieldX f of
                    None \<Rightarrow> Inr st
                  | Some xv \<Rightarrow>
                      (case fieldY f of
                         None \<Rightarrow> Inr st
                       | Some yv \<Rightarrow>
                           if canEncode lib (specValue js p m)
                           then Inr (st\<lparr>calls := calls st @
                                  [DrawText (nat (pageIndex f)) (specValue js p m)
                                     \<lparr>optX = xv,
                                      optY = pageHeight - orNumber (Some yv) 0
                                               - orNumber (height f) 20 + 4,
                                      optSize = orNumber (fontSize f) 12,
                                      optMaxWidth = width f\<rparr>]\<rparr>)
                           else Inl DrawTextFailed))))"
  unfolding fillMapping_def specValue_def
  by (simp add: Let_def orEmpty_eq split: option.splits)

lemma writes_cases:
  "writes js lib t p doc m =
     (case find (\<lambda>f. fieldId f = templateFieldId m) (templateFields t) of
        None \<Rightarrow> []
      | Some f \<Rightarrow>
          if \<not> isManual f then
            (if acceptsText doc (fieldId f) (specValue js p m)
             then [SetText (fieldId f) (specValue js p m)] else [])
          else
            (case getPage doc (pageIndex f) of
               None \<Rightarrow> []
             | Some pageHeight \<Rightarrow>
                 (case fieldX f of
                    None \<Rightarrow> []
                  | Some xv \<Rightarrow>
                      (case fieldY f of
                         None \<Rightarrow> []
                       | Some yv \<Rightarrow>
                           if canEncode lib (specValue js p m)
                           then [DrawText (nat (pageIndex f)) (specValue js p m)
                                   \<lparr>optX = xv,
                                    optY = pageHeight - orNumber (Some yv) 0
                                             - orNumber (height f) 20 + 4,
                                    optSize = orNumber (fontSize f) 12,
                                    optMaxWidth = width f\<rparr>]
                           else []))))"
  by (simp add: writes_def fillMapping_cases split: option.splits)

lemma warns_cases:
  "warns js lib t p doc m =
     (case find (\<lambda>f. fieldId f = templateFieldId m) (templateFields t) of
        None \<Rightarrow> []
      | Some f \<Rightarrow>
          if \<not> isManual f \<and> \<not> acceptsText doc (fieldId f) (specValue js p m)
          then [fieldId f] else [])"
  by (simp add: warns_def fillMapping_cases split: option.splits)

lemma aborts_cases:
  "aborts js lib t p doc m =
     (case find (\<lambda>f. fieldId f = templateFieldId m) (templateFields t) of
        None \<Rightarrow> False
      | Some f \<Rightarrow>
          isManual f \<and> getPage doc (pageIndex f) \<noteq> None \<and> fieldX f \<noteq> None \<and>
          fieldY f \<noteq> None \<and> \<not> canEncode lib (specValue js p m))"
  by (simp add: aborts_def fillMapping_cases split: option.splits)

text \<open>
  The loop only ever appends, and it ends only where \<open>drawText\<close> raises. So a
  generation that returns has made the writes of each mapping in turn.
\<close>

lemma fillMapping_append:
  "fillMapping js lib t p doc st m =
     (if aborts js lib t p doc m then Inl DrawTextFailed
      else Inr \<lparr>calls = calls st @ writes js lib t p doc m,
                warnings = warnings st @ warns js lib t p doc m\<rparr>)"
  by (simp add: aborts_cases writes_cases warns_cases fillMapping_cases split: option.splits)

lemma fillMappings_append:
  "fillMappings js lib t p doc st ms =
     (if list_ex (aborts js lib t p doc) ms then Inl DrawTextFailed
      else Inr \<lparr>calls = calls st @ concat (map (writes js lib t p doc) ms),
                warnings = warnings st @ concat (map (warns js lib t p doc) ms)\<rparr>)"
proof (induction ms arbitrary: st)
  case Nil
  show ?case by simp
next
  case (Cons m ms)
  show ?case by (simp add: Cons.IH fillMapping_append)
qed

lemma generateFilledPDF_eq:
  "generateFilledPDF js lib t p =
     (case PDFDocument_load lib (pdfData t) of
        None \<Rightarrow> Inl LoadFailed
      | Some doc \<Rightarrow>
          if list_ex (aborts js lib t p doc) (mappings t) then Inl DrawTextFailed
          else if saveRaises lib (concat (map (writes js lib t p doc) (mappings t)))
          then Inl SaveFailed
          else Inr \<lparr>outputBytes = PDFDocument_save lib doc
                       (concat (map (writes js lib t p doc) (mappings t))),
                    libCalls = concat (map (writes js lib t p doc) (mappings t)),
                    consoleWarnings = concat (map (warns js lib t p doc) (mappings t))\<rparr>)"
  by (simp add: generateFilledPDF_def fillMappings_append split: option.splits)

text \<open>None of the three looks at the mappings of the template, only at its fields.\<close>

lemma writes_mappings_update [simp]:
  "writes js lib (t\<lparr>mappings := ms\<rparr>) = writes js lib t"
  by (intro ext) (simp add: writes_def fillMapping_def)

lemma warns_mappings_update [simp]:
  "warns js lib (t\<lparr>mappings := ms\<rparr>) = warns js lib t"
  by (intro ext) (simp add: warns_def fillMapping_def)

lemma aborts_mappings_update [simp]:
  "aborts js lib (t\<lparr>mappings := ms\<rparr>) = aborts js lib t"
  by (intro ext) (simp add: aborts_def fillMapping_def)

text \<open>A mapping whose field is gone does nothing at all.\<close>

lemma stale_find:
  assumes "templateFieldId m \<notin> fieldId ` set (templateFields t)"
  shows "find (\<lambda>f. fieldId f = templateFieldId m) (templateFields t) = None"
  using assms by (simp add: find_None_iff) (metis image_eqI)

lemma stale_silent:
  assumes "templateFieldId m \<notin> fieldId ` set (templateFields t)"
  shows "writes js lib t p doc m = []" and "warns js lib t p doc m = []"
    and "\<not> aborts js lib t p doc m"
  using stale_find [OF assms] by (simp_all add: writes_cases warns_cases aborts_cases)

lemma concat_map_filter_silent:
  assumes "\<And>a. a \<in> set as \<Longrightarrow> \<not> P a \<Longrightarrow> g a = []"
  shows "concat (map g (filter P as)) = concat (map g as)"
  using assms by (induction as) auto

lemma list_ex_filter_silent:
  assumes "\<And>a. a \<in> set as \<Longrightarrow> \<not> P a \<Longrightarrow> \<not> Q a"
  shows "list_ex Q (filter P as) = list_ex Q as"
  using assms by (induction as) auto

text \<open>A text of the examples that the font encodes.\<close>

lemma printable_Jane_Doe: "printableAscii ''Jane Doe''"
  by code_simp

section \<open>Generation: the end-to-end scenario\<close>

text \<open>
  Claim C1. A template with one manual field (page 0, x = 50, y = 50, width = 150,
  height = 30, font size 12), one mapping that binds it to the profile key "Full Name"
  with no transformation, and a profile that maps "Full Name" to "Jane Doe": on a
  document that parses and whose page 0 has height \<open>pageHeight\<close>, the generator makes
  exactly one call to the library, a \<open>drawText\<close> on page 0 with the text "Jane Doe",
  x = 50, size 12, maxWidth 150 and y = pageHeight - 50 - 30 + 4, and warns of nothing.
\<close>

theorem generateFilledPDF_end_to_end:
  assumes "templateFields t = [f]" and "isManual f" and "pageIndex f = 0"
    and "fieldX f = Some 50" and "fieldY f = Some 50"
    and "width f = Some 150" and "height f = Some 30" and "fontSize f = Some 12"
    and "mappings t = [m]" and "templateFieldId m = fieldId f"
    and "profileKey m = ''Full Name''" and "transformation m = None"
    and "profileFields p ''Full Name'' = Some ''Jane Doe''"
    and "PDFDocument_load lib (pdfData t) = Some doc"
    and "pageHeights doc = pageHeight # rest"
  shows "generateFilledPDF js lib t p =
           Inr \<lparr>outputBytes = PDFDocument_save lib doc
                  [DrawText 0 ''Jane Doe''
                     \<lparr>optX = 50, optY = pageHeight - 50 - 30 + 4, optSize = 12,
                      optMaxWidth = Some 150\<rparr>],
                libCalls =
                  [DrawText 0 ''Jane Doe''
                     \<lparr>optX = 50, optY = pageHeight - 50 - 30 + 4, optSize = 12,
                      optMaxWidth = Some 150\<rparr>],
                consoleWarnings = []\<rparr>"
  using assms printable_Jane_Doe
  by (simp add: generateFilledPDF_def fillMapping_def getPage_def orEmpty_def orNumber_def
      canEncode_def)

theorem generateFilledPDF_end_to_end_witness:
  "generateFilledPDF asciiStrings stubLib janeTemplate janeProfile =
     Inr \<lparr>outputBytes = [8],
          libCalls =
            [DrawText 0 ''Jane Doe''
               \<lparr>optX = 50, optY = 766, optSize = 12, optMaxWidth = Some 150\<rparr>],
          consoleWarnings = []\<rparr>"
  using generateFilledPDF_end_to_end [of janeTemplate janeField janeMapping janeProfile
      stubLib a4Document 842 "[]" asciiStrings]
  by (simp add: janeTemplate_def janeField_def janeMapping_def janeProfile_def stubLib_def
      a4Document_def)

section \<open>Generation: the value that is written\<close>

lemma success_unfolded:
  assumes "generateFilledPDF js lib t p = Inr out"
  shows "\<exists>doc. PDFDocument_load lib (pdfData t) = Some doc \<and>
           \<not> list_ex (aborts js lib t p doc) (mappings t) \<and>
           \<not> saveRaises lib (concat (map (writes js lib t p doc) (mappings t))) \<and>
           libCalls out = concat (map (writes js lib t p doc) (mappings t)) \<and>
           outputBytes out = PDFDocument_save lib doc (libCalls out) \<and>
           consoleWarnings out = concat (map (warns js lib t p doc) (mappings t))"
  using assms by (auto simp: generateFilledPDF_eq split: option.splits if_splits)

lemma writes_value:
  assumes "c \<in> set (writes js lib t p doc m)"
  shows "callValue c = specValue js p m"
proof (cases "find (\<lambda>f. fieldId f = templateFieldId m) (templateFields t)")
  case None
  with assms show ?thesis by (simp add: writes_cases)
next
  case (Some f)
  with assms show ?thesis
    by (cases "getPage doc (pageIndex f)"; cases "fieldX f"; cases "fieldY f")
       (auto simp: writes_cases split: if_splits)
qed






section \<open>Generation: manual fields\<close>

text \<open>
  Claim C3 asks for all four geometry attributes before text is placed. The code tests
  the page, x and y only: a manual field with x and y and neither width nor height is
  painted all the same, its height counted as 20 and maxWidth left unset.
\<close>

theorem manual_field_without_size_counterexample:
  "width noSizeField = None \<and> height noSizeField = None \<and>
   generateFilledPDF asciiStrings stubLib noSizeTemplate janeProfile =
     Inr \<lparr>outputBytes = [8],
          libCalls =
            [DrawText 0 ''Jane Doe''
               \<lparr>optX = 50, optY = 776, optSize = 12, optMaxWidth = None\<rparr>],
          consoleWarnings = []\<rparr>"
  using printable_Jane_Doe
  by (simp add: generateFilledPDF_def fillMapping_def getPage_def orEmpty_def orNumber_def
      canEncode_def noSizeTemplate_def noSizeField_def janeProfile_def stubLib_def
      a4Document_def)

text \<open>
  Claim C3, amended. For a mapping of a manual field, the text painter is called exactly
  when the field's page index is within the document's pages and x and y are present:
  one \<open>drawText\<close> with the resolved value, a missing height counted as 20 and the width,
  present or not, passed as maxWidth; the text is placed unless the font cannot encode
  it, in which case the call raises. A manual field that fails the condition is skipped:
  the loop body leaves the state as it was, and the generation is the one of the
  template without that mapping.
\<close>

theorem generateFilledPDF_manual_placement:
  assumes "find (\<lambda>f. fieldId f = templateFieldId m) (templateFields t) = Some f"
    and "isManual f"
  shows "(\<forall>xv yv. 0 \<le> pageIndex f \<and> nat (pageIndex f) < length (pageHeights doc) \<and>
            fieldX f = Some xv \<and> fieldY f = Some yv \<longrightarrow>
            fillMapping js lib t p doc st m =
              (if canEncode lib (specValue js p m)
               then Inr (st\<lparr>calls := calls st @
                      [DrawText (nat (pageIndex f)) (specValue js p m)
                         \<lparr>optX = xv,
                          optY = pageHeights doc ! nat (pageIndex f) - orNumber (Some yv) 0
                                   - orNumber (height f) 20 + 4,
                          optSize = orNumber (fontSize f) 12,
                          optMaxWidth = width f\<rparr>]\<rparr>)
               else Inl DrawTextFailed))
       \<and> (\<not> (0 \<le> pageIndex f \<and> nat (pageIndex f) < length (pageHeights doc) \<and>
              fieldX f \<noteq> None \<and> fieldY f \<noteq> None) \<longrightarrow>
            fillMapping js lib t p doc st m = Inr st \<and>
            (\<forall>ms1 ms2. PDFDocument_load lib (pdfData t) = Some doc \<and>
               mappings t = ms1 @ m # ms2 \<longrightarrow>
               generateFilledPDF js lib t p =
                 generateFilledPDF js lib (t\<lparr>mappings := ms1 @ ms2\<rparr>) p))"
proof (intro conjI allI impI)
  fix xv yv
  assume "0 \<le> pageIndex f \<and> nat (pageIndex f) < length (pageHeights doc) \<and>
            fieldX f = Some xv \<and> fieldY f = Some yv"
  with assms show "fillMapping js lib t p doc st m =
              (if canEncode lib (specValue js p m)
               then Inr (st\<lparr>calls := calls st @
                      [DrawText (nat (pageIndex f)) (specValue js p m)
                         \<lparr>optX = xv,
                          optY = pageHeights doc ! nat (pageIndex f) - orNumber (Some yv) 0
                                   - orNumber (height f) 20 + 4,
                          optSize = orNumber (fontSize f) 12,
                          optMaxWidth = width f\<rparr>]\<rparr>)
               else Inl DrawTextFailed)"
    by (simp add: fillMapping_cases getPage_def)
next
  assume no: "\<not> (0 \<le> pageIndex f \<and> nat (pageIndex f) < length (pageHeights doc) \<and>
              fieldX f \<noteq> None \<and> fieldY f \<noteq> None)"
  with assms show "fillMapping js lib t p doc st m = Inr st"
    by (auto simp: fillMapping_cases getPage_def split: option.splits)
next
  fix ms1 ms2
  assume no: "\<not> (0 \<le> pageIndex f \<and> nat (pageIndex f) < length (pageHeights doc) \<and>
              fieldX f \<noteq> None \<and> fieldY f \<noteq> None)"
    and run: "PDFDocument_load lib (pdfData t) = Some doc \<and> mappings t = ms1 @ m # ms2"
  from assms no have "writes js lib t p doc m = []" and "warns js lib t p doc m = []"
    and "\<not> aborts js lib t p doc m"
    by (auto simp: writes_cases warns_cases aborts_cases getPage_def split: option.splits)
  with run show "generateFilledPDF js lib t p =
      generateFilledPDF js lib (t\<lparr>mappings := ms1 @ ms2\<rparr>) p"
    by (simp add: generateFilledPDF_eq)
qed

theorem generateFilledPDF_manual_placement_witness:
  "fillMapping asciiStrings stubLib offPageTemplate janeProfile a4Document
     \<lparr>calls = [], warnings = []\<rparr> offPageMapping = Inr \<lparr>calls = [], warnings = []\<rparr> \<and>
   fillMapping asciiStrings stubLib offPageTemplate janeProfile a4Document
     \<lparr>calls = [], warnings = []\<rparr> janeMapping =
     Inr \<lparr>calls = [DrawText 0 ''Jane Doe''
                     \<lparr>optX = 50, optY = 766, optSize = 12, optMaxWidth = Some 150\<rparr>],
          warnings = []\<rparr>"
proof -
  have off: "find (\<lambda>f. fieldId f = templateFieldId offPageMapping)
      (templateFields offPageTemplate) = Some offPageField"
    by (simp add: offPageTemplate_def offPageMapping_def offPageField_def)
  have jane: "find (\<lambda>f. fieldId f = templateFieldId janeMapping)
      (templateFields offPageTemplate) = Some janeField"
    by (simp add: offPageTemplate_def janeMapping_def offPageField_def janeField_def)
  have manual: "isManual offPageField" "isManual janeField"
    by (simp_all add: offPageField_def janeField_def)
  have v: "specValue asciiStrings janeProfile janeMapping = ''Jane Doe''"
    by (simp add: specValue_def janeProfile_def janeMapping_def)
  have enc: "canEncode stubLib ''Jane Doe''"
    by (simp add: canEncode_def printable_Jane_Doe)
  from generateFilledPDF_manual_placement [OF off manual(1),
      of a4Document asciiStrings stubLib janeProfile "\<lparr>calls = [], warnings = []\<rparr>"]
    generateFilledPDF_manual_placement [OF jane manual(2),
      of a4Document asciiStrings stubLib janeProfile "\<lparr>calls = [], warnings = []\<rparr>"]
    v enc
  show ?thesis
    by (simp add: offPageField_def janeField_def a4Document_def orNumber_def)
qed

section \<open>Generation: stale mappings\<close>

lemma encodable_calls_save:
  "\<forall>c \<in> set cs. canEncode lib (callValue c) \<Longrightarrow> \<not> saveRaises lib cs"
proof (induction cs)
  case Nil
  show ?case by simp
next
  case (Cons c cs)
  then show ?case by (cases c) auto
qed

text \<open>
  Claim C6. A mapping whose \<open>templateFieldId\<close> is the id of no field of the template
  is skipped: the loop body leaves the state as it was, so the generation is the one of
  the template with those mappings removed. The remaining mappings are filled: in a
  generation that returns, the calls are the writes of the mappings that reference a
  field, and among them are the \<open>setText\<close> of every such mapping whose field is not
  manual and takes the value, and the \<open>drawText\<close> of every such mapping whose manual
  field can be placed. And the generation does return when the document parses and the
  font encodes the value of every mapping that references a field, whatever mappings
  reference none.
\<close>

theorem generateFilledPDF_skips_stale_mappings:
  "(\<forall>m. templateFieldId m \<notin> fieldId ` set (templateFields t) \<longrightarrow>
       (\<forall>doc st. fillMapping js lib t p doc st m = Inr st))
   \<and> generateFilledPDF js lib t p =
       generateFilledPDF js lib
         (t\<lparr>mappings := filter (\<lambda>m. templateFieldId m \<in> fieldId ` set (templateFields t))
                            (mappings t)\<rparr>) p
   \<and> (\<forall>out. generateFilledPDF js lib t p = Inr out \<longrightarrow>
        (\<exists>doc. PDFDocument_load lib (pdfData t) = Some doc \<and>
           libCalls out =
             concat (map (writes js lib t p doc)
               (filter (\<lambda>m. templateFieldId m \<in> fieldId ` set (templateFields t))
                  (mappings t))) \<and>
           (\<forall>m \<in> set (mappings t).
              \<forall>f. find (\<lambda>f. fieldId f = templateFieldId m) (templateFields t) = Some f \<longrightarrow>
                (\<not> isManual f \<and> acceptsText doc (fieldId f) (specValue js p m) \<longrightarrow>
                   SetText (fieldId f) (specValue js p m) \<in> set (libCalls out)) \<and>
                (isManual f \<longrightarrow>
                   (\<forall>h xv yv. getPage doc (pageIndex f) = Some h \<and> fieldX f = Some xv \<and>
                      fieldY f = Some yv \<longrightarrow>
                      DrawText (nat (pageIndex f)) (specValue js p m)
                        \<lparr>optX = xv,
                         optY = h - orNumber (Some yv) 0 - orNumber (height f) 20 + 4,
                         optSize = orNumber (fontSize f) 12,
                         optMaxWidth = width f\<rparr> \<in> set (libCalls out))))))
   \<and> (\<forall>doc. PDFDocument_load lib (pdfData t) = Some doc \<and>
         (\<forall>m \<in> set (mappings t).
            templateFieldId m \<in> fieldId ` set (templateFields t) \<longrightarrow>
            canEncode lib (specValue js p m)) \<longrightarrow>
         (\<exists>out. generateFilledPDF js lib t p = Inr out))"
proof (intro conjI allI impI)
  fix m :: mapping and doc st
  assume "templateFieldId m \<notin> fieldId ` set (templateFields t)"
  then show "fillMapping js lib t p doc st m = Inr st"
    by (simp add: fillMapping_cases stale_find)
next
  have w: "\<And>doc. concat (map (writes js lib t p doc)
              (filter (\<lambda>m. templateFieldId m \<in> fieldId ` set (templateFields t)) (mappings t)))
            = concat (map (writes js lib t p doc) (mappings t))"
    by (rule concat_map_filter_silent) (rule stale_silent)
  have v: "\<And>doc. concat (map (warns js lib t p doc)
              (filter (\<lambda>m. templateFieldId m \<in> fieldId ` set (templateFields t)) (mappings t)))
            = concat (map (warns js lib t p doc) (mappings t))"
    by (rule concat_map_filter_silent) (rule stale_silent)
  have a: "\<And>doc. list_ex (aborts js lib t p doc)
              (filter (\<lambda>m. templateFieldId m \<in> fieldId ` set (templateFields t)) (mappings t))
            = list_ex (aborts js lib t p doc) (mappings t)"
    by (rule list_ex_filter_silent) (rule stale_silent)
  show "generateFilledPDF js lib t p =
       generateFilledPDF js lib
         (t\<lparr>mappings := filter (\<lambda>m. templateFieldId m \<in> fieldId ` set (templateFields t))
                            (mappings t)\<rparr>) p"
    by (simp add: generateFilledPDF_eq w v a split: option.splits)
  fix out
  assume "generateFilledPDF js lib t p = Inr out"
  from success_unfolded [OF this]
  obtain doc where load: "PDFDocument_load lib (pdfData t) = Some doc"
    and run: "\<not> list_ex (aborts js lib t p doc) (mappings t)"
    and cs: "libCalls out = concat (map (writes js lib t p doc) (mappings t))"
    by blast
  have pin: "(\<not> isManual f \<and> acceptsText doc (fieldId f) (specValue js p m) \<longrightarrow>
                   SetText (fieldId f) (specValue js p m) \<in> set (libCalls out)) \<and>
                (isManual f \<longrightarrow>
                   (\<forall>h xv yv. getPage doc (pageIndex f) = Some h \<and> fieldX f = Some xv \<and>
                      fieldY f = Some yv \<longrightarrow>
                      DrawText (nat (pageIndex f)) (specValue js p m)
                        \<lparr>optX = xv,
                         optY = h - orNumber (Some yv) 0 - orNumber (height f) 20 + 4,
                         optSize = orNumber (fontSize f) 12,
                         optMaxWidth = width f\<rparr> \<in> set (libCalls out)))"
    if m: "m \<in> set (mappings t)"
      and f: "find (\<lambda>f. fieldId f = templateFieldId m) (templateFields t) = Some f"
    for m f
  proof -
    from run m have ok: "\<not> aborts js lib t p doc m"
      by (auto simp: list_ex_iff)
    have sub: "set (writes js lib t p doc m) \<subseteq> set (libCalls out)"
      using m by (auto simp: cs)
    show ?thesis
    proof (intro conjI allI impI)
      assume "\<not> isManual f \<and> acceptsText doc (fieldId f) (specValue js p m)"
      with f have "writes js lib t p doc m = [SetText (fieldId f) (specValue js p m)]"
        by (simp add: writes_cases)
      with sub show "SetText (fieldId f) (specValue js p m) \<in> set (libCalls out)" by simp
    next
      fix h xv yv
      assume "isManual f"
        and "getPage doc (pageIndex f) = Some h \<and> fieldX f = Some xv \<and> fieldY f = Some yv"
      with f ok have "writes js lib t p doc m =
          [DrawText (nat (pageIndex f)) (specValue js p m)
             \<lparr>optX = xv,
              optY = h - orNumber (Some yv) 0 - orNumber (height f) 20 + 4,
              optSize = orNumber (fontSize f) 12,
              optMaxWidth = width f\<rparr>]"
        by (simp add: writes_cases aborts_cases)
      with sub show "DrawText (nat (pageIndex f)) (specValue js p m)
             \<lparr>optX = xv,
              optY = h - orNumber (Some yv) 0 - orNumber (height f) 20 + 4,
              optSize = orNumber (fontSize f) 12,
              optMaxWidth = width f\<rparr> \<in> set (libCalls out)" by simp
    qed
  qed
  from load cs w pin
  show "\<exists>doc. PDFDocument_load lib (pdfData t) = Some doc \<and>
           libCalls out =
             concat (map (writes js lib t p doc)
               (filter (\<lambda>m. templateFieldId m \<in> fieldId ` set (templateFields t))
                  (mappings t))) \<and>
           (\<forall>m \<in> set (mappings t).
              \<forall>f. find (\<lambda>f. fieldId f = templateFieldId m) (templateFields t) = Some f \<longrightarrow>
                (\<not> isManual f \<and> acceptsText doc (fieldId f) (specValue js p m) \<longrightarrow>
                   SetText (fieldId f) (specValue js p m) \<in> set (libCalls out)) \<and>
                (isManual f \<longrightarrow>
                   (\<forall>h xv yv. getPage doc (pageIndex f) = Some h \<and> fieldX f = Some xv \<and>
                      fieldY f = Some yv \<longrightarrow>
                      DrawText (nat (pageIndex f)) (specValue js p m)
                        \<lparr>optX = xv,
                         optY = h - orNumber (Some yv) 0 - orNumber (height f) 20 + 4,
                         optSize = orNumber (fontSize f) 12,
                         optMaxWidth = width f\<rparr> \<in> set (libCalls out))))"
    by (intro exI [of _ doc]) simp
next
  fix doc
  assume a: "PDFDocument_load lib (pdfData t) = Some doc \<and>
         (\<forall>m \<in> set (mappings t).
            templateFieldId m \<in> fieldId ` set (templateFields t) \<longrightarrow>
            canEncode lib (specValue js p m))"
  have enc: "canEncode lib (specValue js p m)"
    if "m \<in> set (mappings t)"
      and "find (\<lambda>f. fieldId f = templateFieldId m) (templateFields t) = Some f" for m f
  proof -
    from that(2) have "f \<in> set (templateFields t)" and "fieldId f = templateFieldId m"
      by (auto simp: find_Some_iff in_set_conv_nth)
    then have "templateFieldId m \<in> fieldId ` set (templateFields t)"
      by (metis image_eqI)
    with a that(1) show ?thesis by blast
  qed
  have na: "\<not> list_ex (aborts js lib t p doc) (mappings t)"
    using enc by (auto simp: list_ex_iff aborts_cases split: option.splits)
  have "\<forall>c \<in> set (concat (map (writes js lib t p doc) (mappings t))).
          canEncode lib (callValue c)"
  proof
    fix c
    assume "c \<in> set (concat (map (writes js lib t p doc) (mappings t)))"
    then obtain m where m: "m \<in> set (mappings t)" and c: "c \<in> set (writes js lib t p doc m)"
      by auto
    have "find (\<lambda>f. fieldId f = templateFieldId m) (templateFields t) \<noteq> None"
    proof
      assume "find (\<lambda>f. fieldId f = templateFieldId m) (templateFields t) = None"
      with c show False by (simp add: writes_cases)
    qed
    then obtain f where "find (\<lambda>f. fieldId f = templateFieldId m) (templateFields t) = Some f"
      by blast
    from enc [OF m this] writes_value [OF c] show "canEncode lib (callValue c)" by simp
  qed
  then have ns: "\<not> saveRaises lib (concat (map (writes js lib t p doc) (mappings t)))"
    by (rule encodable_calls_save)
  from a na ns show "\<exists>out. generateFilledPDF js lib t p = Inr out"
    by (simp add: generateFilledPDF_eq)
qed

theorem generateFilledPDF_skips_stale_mappings_witness:
  "templateFieldId ghostMapping \<notin> fieldId ` set (templateFields staleTemplate) \<and>
   generateFilledPDF asciiStrings stubLib staleTemplate janeProfile =
     Inr \<lparr>outputBytes = [8],
          libCalls =
            [DrawText 0 ''Jane Doe''
               \<lparr>optX = 50, optY = 766, optSize = 12, optMaxWidth = Some 150\<rparr>],
          consoleWarnings = []\<rparr>"
proof -
  have ghost: "templateFieldId ghostMapping \<notin> fieldId ` set (templateFields staleTemplate)"
    by (simp add: ghostMapping_def staleTemplate_def janeField_def)
  have kept: "filter (\<lambda>m. templateFieldId m \<in> fieldId ` set (templateFields staleTemplate))
      (mappings staleTemplate) = [janeMapping]"
    by (simp add: ghostMapping_def staleTemplate_def janeField_def janeMapping_def)
  have out: "generateFilledPDF asciiStrings stubLib (staleTemplate\<lparr>mappings := [janeMapping]\<rparr>)
      janeProfile =
     Inr \<lparr>outputBytes = [8],
          libCalls =
            [DrawText 0 ''Jane Doe''
               \<lparr>optX = 50, optY = 766, optSize = 12, optMaxWidth = Some 150\<rparr>],
          consoleWarnings = []\<rparr>"
    using printable_Jane_Doe
    by (simp add: generateFilledPDF_def fillMapping_def getPage_def orEmpty_def orNumber_def
        canEncode_def staleTemplate_def janeField_def janeMapping_def janeProfile_def
        stubLib_def a4Document_def)
  from generateFilledPDF_skips_stale_mappings [of staleTemplate asciiStrings stubLib janeProfile]
    ghost kept out
  show ?thesis by simp
qed

section \<open>Generation: what ends it\<close>

text \<open>
  The write of a field that is not manual is inside the \<open>try\<close> block: when the form
  writer raises, the loop body prints a warning and goes on with the state as it was.
\<close>

lemma fillMapping_refused_write_is_local:
  assumes "find (\<lambda>f. fieldId f = templateFieldId m) (templateFields t) = Some f"
    and "\<not> isManual f" and "\<not> acceptsText doc (fieldId f) (specValue js p m)"
  shows "fillMapping js lib t p doc st m = Inr (st\<lparr>warnings := warnings st @ [fieldId f]\<rparr>)"
  using assms by (simp add: fillMapping_cases)

text \<open>The three ways a generation ends without bytes, and no other.\<close>

lemma generateFilledPDF_failures:
  "generateFilledPDF js lib t p = Inl e \<longleftrightarrow>
     (case PDFDocument_load lib (pdfData t) of
        None \<Rightarrow> e = LoadFailed
      | Some doc \<Rightarrow>
          if list_ex (aborts js lib t p doc) (mappings t) then e = DrawTextFailed
          else saveRaises lib (concat (map (writes js lib t p doc) (mappings t))) \<and>
               e = SaveFailed)"
  by (auto simp: generateFilledPDF_eq split: option.splits)

text \<open>
  Claim C7 says that only a failure to parse \<open>template.pdfData\<close> reaches the caller.
  The \<open>drawText\<close> of a manual field (lines 79 to 86) and \<open>pdfDoc.save()\<close> (line 91)
  are outside the \<open>try\<close> block that guards the write of a native field, and both raise
  on a text the Helvetica font cannot encode. With the name of the last example, which
  starts with L with stroke, the document parses and the generation still ends without
  bytes: in \<open>drawText\<close> for the manual field of the first scenario, in \<open>save\<close> for a
  native field that took the text.
\<close>

theorem generateFilledPDF_unencodable_text_aborts:
  "PDFDocument_load stubLib (pdfData janeTemplate) = Some a4Document \<and>
   generateFilledPDF asciiStrings stubLib janeTemplate lukaszProfile = Inl DrawTextFailed \<and>
   PDFDocument_load stubLib (pdfData lukaszNativeTemplate) = Some a4Document \<and>
   generateFilledPDF asciiStrings stubLib lukaszNativeTemplate lukaszProfile = Inl SaveFailed"
proof -
  have bad: "\<not> canEncode stubLib (CHR 0xC5 # CHR 0x81 # ''ukasz'')"
  proof -
    have "\<not> printableAscii (CHR 0xC5 # CHR 0x81 # ''ukasz'')" by code_simp
    then show ?thesis by (simp add: canEncode_def stubLib_def)
  qed
  have draw: "generateFilledPDF asciiStrings stubLib janeTemplate lukaszProfile =
      Inl DrawTextFailed"
    using bad
    by (simp add: generateFilledPDF_def fillMapping_def getPage_def orEmpty_def orNumber_def
        janeTemplate_def janeField_def janeMapping_def lukaszProfile_def stubLib_def
        a4Document_def)
  have save: "generateFilledPDF asciiStrings stubLib lukaszNativeTemplate lukaszProfile =
      Inl SaveFailed"
    using bad
    by (simp add: generateFilledPDF_def fillMapping_def orEmpty_def
        lukaszNativeTemplate_def sigField_def lukaszProfile_def stubLib_def a4Document_def)
  from draw save show ?thesis
    by (simp add: stubLib_def janeTemplate_def lukaszNativeTemplate_def)
qed

section \<open>The editor: saveMapping\<close>
















section \<open>The editor: deleteField\<close>

text \<open>
  Claim C5. deleteField removes the fields with the given id and the mappings that
  reference it, and persists both in one \<open>db.templates.update\<close> call that carries the
  whole updated template. No field and no mapping of the result has the id; and when
  every mapping referenced a field of the template before, every mapping still does.
\<close>

theorem deleteField_cascades:
  assumes "template s = Some t"
  shows "\<exists>t'. template (deleteField fid s) = Some t' \<and>
     templateFields t' = filter (\<lambda>f. fieldId f \<noteq> fid) (templateFields t) \<and>
     mappings t' = filter (\<lambda>m. templateFieldId m \<noteq> fid) (mappings t) \<and>
     fid \<notin> fieldId ` set (templateFields t') \<and>
     fid \<notin> templateFieldId ` set (mappings t') \<and>
     dbUpdates (deleteField fid s) = dbUpdates s @ [(templateId t, WholeTemplate t')] \<and>
     ((\<forall>m \<in> set (mappings t). templateFieldId m \<in> fieldId ` set (templateFields t)) \<longrightarrow>
      (\<forall>m \<in> set (mappings t'). templateFieldId m \<in> fieldId ` set (templateFields t')))"
  using assms by (auto simp: deleteField_def Let_def)

theorem deleteField_cascades_witness:
  "map_option templateFields (template (deleteField ''custom_1'' janeEditor)) = Some [] \<and>
   map_option mappings (template (deleteField ''custom_1'' janeEditor)) = Some [] \<and>
   length (dbUpdates (deleteField ''custom_1'' janeEditor)) = 1"
proof -
  have t: "template janeEditor = Some janeTemplate"
    by (simp add: janeEditor_def)
  have f: "filter (\<lambda>f. fieldId f \<noteq> ''custom_1'') (templateFields janeTemplate) = []"
    by (simp add: janeTemplate_def janeField_def)
  have m: "filter (\<lambda>m. templateFieldId m \<noteq> ''custom_1'') (mappings janeTemplate) = []"
    by (simp add: janeTemplate_def janeMapping_def)
  have u: "dbUpdates janeEditor = []"
    by (simp add: janeEditor_def)
  from deleteField_cascades [OF t, of "''custom_1''"] f m u
  show ?thesis by auto
qed

section \<open>The editor: addManualField\<close>

text \<open>The decimal text of a number determines the number.\<close>

lemma decimal_digit: "n < 10 \<Longrightarrow> decimal n = [char_of (48 + n)]"
  by (subst decimal.simps) simp

lemma decimal_step:
  "\<not> n < 10 \<Longrightarrow> decimal n = decimal (n div 10) @ [char_of (48 + n mod 10)]"
  by (subst decimal.simps) simp

lemma decimal_nonempty: "decimal n \<noteq> []"
  by (cases "n < 10") (simp_all add: decimal_digit decimal_step)

lemma digit_inj:
  assumes "a < 10" and "b < 10" and "char_of (48 + a) = char_of (48 + (b::nat))"
  shows "a = (b::nat)"
proof -
  from assms(3) have "(48 + a) mod 256 = (48 + b) mod 256"
    by (simp add: char_of_eq_iff take_bit_eq_mod)
  with assms(1,2) show ?thesis by simp
qed

lemma decimal_inj: "decimal n = decimal m \<Longrightarrow> n = m"
proof (induction n arbitrary: m rule: decimal.induct)
  case (1 n)
  show ?case
  proof (cases "n < 10")
    case small: True
    show ?thesis
    proof (cases "m < 10")
      case True
      with small "1.prems" show ?thesis
        by (simp add: decimal_digit digit_inj)
    next
      case False
      with small "1.prems" decimal_nonempty [of "m div 10"] show ?thesis
        by (simp add: decimal_digit decimal_step)
    qed
  next
    case big: False
    show ?thesis
    proof (cases "m < 10")
      case True
      with big "1.prems" decimal_nonempty [of "n div 10"] show ?thesis
        by (simp add: decimal_digit decimal_step)
    next
      case False
      with big "1.prems" have hd: "decimal (n div 10) = decimal (m div 10)"
        and dg: "char_of (48 + n mod 10) = (char_of (48 + m mod 10) :: char)"
        by (simp_all add: decimal_step)
      from "1.IH" [OF big hd] have q: "n div 10 = m div 10" .
      have "n mod 10 = m mod 10"
        by (rule digit_inj [OF _ _ dg]) simp_all
      with q show ?thesis by (metis div_mult_mod_eq)
    qed
  qed
qed

text \<open>
  What addManualField does on a loaded template: it appends one field, the default box
  on the current page, named by the clock; persists the whole template in one update;
  and selects the new field. The ids stay distinct when no field had the new id, and
  ids made at different clock readings differ.
\<close>

lemma addManualField_effect:
  assumes "template s = Some t"
  shows "\<exists>t'. template (addManualField now s) = Some t' \<and>
     templateFields t' = templateFields t @
       [\<lparr>fieldId = ''custom_'' @ decimal now, fieldName = ''New Field'', fieldType = TEXT,
         isManual = True, pageIndex = currentPage s - 1, fieldX = Some 50, fieldY = Some 50,
         width = Some 150, height = Some 30, fontSize = Some 12\<rparr>] \<and>
     mappings t' = mappings t \<and>
     dbUpdates (addManualField now s) = dbUpdates s @ [(templateId t, WholeTemplate t')] \<and>
     selectedFieldId (addManualField now s) = Some (''custom_'' @ decimal now) \<and>
     (distinct (map fieldId (templateFields t)) \<and>
      ''custom_'' @ decimal now \<notin> fieldId ` set (templateFields t) \<longrightarrow>
        distinct (map fieldId (templateFields t'))) \<and>
     (\<forall>earlier. earlier \<noteq> now \<longrightarrow> ''custom_'' @ decimal earlier \<noteq> ''custom_'' @ decimal now)"
  using assms by (auto simp: addManualField_def Let_def dest: decimal_inj)

text \<open>
  Claim C8 says the new id is fresh and unique within the template's field set. The id
  is \<open>custom_\<close> followed by \<open>Date.now()\<close>, and nothing compares it with the ids the
  template holds: two calls at the same clock reading, here 5, leave two fields with the
  id \<open>custom_5\<close>.
\<close>

theorem addManualField_same_millisecond_duplicate_id:
  "map_option (map fieldId \<circ> templateFields)
     (template (addManualField 5 (addManualField 5 freshEditor))) =
     Some [''custom_5'', ''custom_5'']"
proof -
  have "decimal 5 = ''5''" by code_simp
  then show ?thesis
    by (simp add: addManualField_def freshEditor_def Let_def)
qed

section \<open>The editor: resizing\<close>

text \<open>
  Claim C9. After a resize step, every field with the resized field's id has width
  \<open>max 20 (startWidth + dx)\<close> and height \<open>max 10 (startHeight + dy)\<close>, so at least 20
  and 10, wherever the pointer is; the other fields are as they were. The scale is taken
  to be non-zero, where the quotient of the model is the one JavaScript computes.
\<close>

theorem onResize_keeps_minimum_size:
  assumes "template s = Some t" and "scale s \<noteq> 0"
  shows "\<exists>t'. template (onResize field startX startY clientX clientY s) = Some t' \<and>
     length (templateFields t') = length (templateFields t) \<and>
     (\<forall>i < length (templateFields t).
        if fieldId (templateFields t ! i) = fieldId field
        then width (templateFields t' ! i) =
               Some (max 20 (orNumber (width field) 100 + (clientX - startX) / scale s)) \<and>
             height (templateFields t' ! i) =
               Some (max 10 (orNumber (height field) 20 + (clientY - startY) / scale s)) \<and>
             (\<exists>w h. width (templateFields t' ! i) = Some w \<and> 20 \<le> w \<and>
                    height (templateFields t' ! i) = Some h \<and> 10 \<le> h)
        else templateFields t' ! i = templateFields t ! i)"
  using assms
  by (simp add: onResize_def updateField_def spread_def noUpdates_def Let_def)

theorem onResize_keeps_minimum_size_witness:
  "map_option (map width \<circ> templateFields) (template (onResize janeField 100 100 0 0 janeEditor))
     = Some [Some 100] \<and>
   map_option (map height \<circ> templateFields) (template (onResize janeField 100 100 0 0 janeEditor))
     = Some [Some 10]"
proof -
  have t: "template janeEditor = Some janeTemplate" and sc: "scale janeEditor \<noteq> 0"
    by (simp_all add: janeEditor_def)
  have run: "map_option (map width \<circ> templateFields) (template (onResize janeField 100 100 0 0 janeEditor))
     = Some [Some 100] \<and>
   map_option (map height \<circ> templateFields) (template (onResize janeField 100 100 0 0 janeEditor))
     = Some [Some 10]"
    by (simp add: onResize_def updateField_def spread_def noUpdates_def Let_def orNumber_def
        janeEditor_def janeTemplate_def janeField_def)
  from onResize_keeps_minimum_size [OF t sc, of janeField 100 100 0 0] run
  show ?thesis by simp
qed

end
